theory Spec2Isabelle
  imports Main
begin

section \<open>The connection manager (lib/socket.ts)\<close>

text \<open>
  A socket handle is a JavaScript object; only its identity matters here. The library call
  \<^verbatim>\<open>io(url, opts)\<close> builds a new object each time \<open>connect\<close> reaches it, so the model
  numbers the objects in the order of their creation: \<open>created\<close> counts the calls of
  \<^verbatim>\<open>io\<close> so far and \<open>torn_down\<close> lists the handles on which \<^verbatim>\<open>socket.disconnect()\<close>
  was called. The private field of the class is \<open>socket\<close> (\<open>None\<close> is \<^verbatim>\<open>null\<close>).
\<close>

type_synonym handle = nat

record SocketManager =
  socket :: "handle option"
  created :: nat
  torn_down :: "handle list"

definition socketManager :: SocketManager where
  "socketManager = \<lparr>socket = None, created = 0, torn_down = []\<rparr>"

definition io :: "SocketManager \<Rightarrow> handle \<times> SocketManager" where
  "io m = (created m, m\<lparr>created := Suc (created m)\<rparr>)"

definition connect :: "SocketManager \<Rightarrow> handle \<times> SocketManager" where
  "connect m =
     (case socket m of
        None \<Rightarrow> (case io m of (h, m') \<Rightarrow> (h, m'\<lparr>socket := Some h\<rparr>))
      | Some h \<Rightarrow> (h, m))"

definition disconnect :: "SocketManager \<Rightarrow> SocketManager" where
  "disconnect m =
     (case socket m of
        Some h \<Rightarrow> m\<lparr>socket := None, torn_down := torn_down m @ [h]\<rparr>
      | None \<Rightarrow> m)"

definition getSocket :: "SocketManager \<Rightarrow> handle option" where
  "getSocket m = socket m"

text \<open>Any sequence of calls a client of the manager can make.\<close>

datatype manager_call = Connect | Disconnect | GetSocket

fun call :: "manager_call \<Rightarrow> SocketManager \<Rightarrow> SocketManager" where
  "call Connect m = snd (connect m)"
| "call Disconnect m = disconnect m"
| "call GetSocket m = m"

fun calls :: "manager_call list \<Rightarrow> SocketManager \<Rightarrow> SocketManager" where
  "calls [] m = m"
| "calls (c # cs) m = calls cs (call c m)"

text \<open>The handles returned by \<open>n\<close> successive calls of \<open>connect\<close>, and the manager after them.\<close>

fun connect_times :: "nat \<Rightarrow> SocketManager \<Rightarrow> handle list \<times> SocketManager" where
  "connect_times 0 m = ([], m)"
| "connect_times (Suc n) m =
     (case connect m of (h, m') \<Rightarrow>
        (case connect_times n m' of (hs, m'') \<Rightarrow> (h # hs, m'')))"

text \<open>
  Every handle the manager knows was made by an earlier call of \<^verbatim>\<open>io\<close>: the invariant
  behind the freshness of a new handle.
\<close>

definition manager_ok :: "SocketManager \<Rightarrow> bool" where
  "manager_ok m =
     ((case socket m of None \<Rightarrow> True | Some h \<Rightarrow> h < created m)
      \<and> list_all (\<lambda>h. h < created m) (torn_down m))"

section \<open>Values exchanged with the server\<close>

text \<open>
  Payloads are JSON. An object whose TypeScript type is declared outside the sources at hand
  (\<^verbatim>\<open>Partial<GameState>\<close>) is a finite map from property names to JSON values, so that
  the object spread of the source is map override.
\<close>

datatype jsval =
    JNull
  | JBool bool
  | JNum int
  | JStr string
  | JArr "jsval list"
  | JObj "(string \<times> jsval) list"

type_synonym jsobject = "string \<rightharpoonup> jsval"

text \<open>
  Modelled from the spec: the declarations of \<^verbatim>\<open>GameConfig\<close> and \<^verbatim>\<open>Card\<close> (module
  \<^verbatim>\<open>@/types/truco\<close>) are not among the sources. A configuration is "max points and a
  flor-enabled flag", the two properties the lobby reads; a card has the suit and rank the
  card component reads and the identifier that \<^verbatim>\<open>play:card\<close> sends.
\<close>

record GameConfig =
  maxPoints :: int
  withFlor :: bool

datatype Suit = Espadas | Bastos | Oros | Copas

record Card =
  card_id :: string
  suit :: Suit
  rank :: nat

record Player =
  player_id :: string
  player_name :: string
  player_connected :: bool

datatype RoomStatus = Waiting | Playing | Ended

record Room =
  room_id :: string
  players :: "Player list"
  status :: RoomStatus
  playerCount :: int

record WaitingRoom =
  wr_id :: string
  wr_code :: "string option"
  wr_playerCount :: int
  wr_createdAt :: nat
  wr_config :: GameConfig

datatype MessageType = Info | Action | Truco | Envido | Flor | Winner

record GameMessage =
  msg_type :: MessageType
  msg_text :: string
  timestamp :: nat

text \<open>
  An acknowledgement is typed \<^verbatim>\<open>any\<close> in the source; these are the properties the
  callbacks read. \<open>None\<close> is an absent property.
\<close>

record Response =
  success :: bool
  error :: "string option"
  resp_room :: "Room option"
  resp_gameState :: "jsobject option"
  resp_hand :: "Card list option"
  resp_roomId :: "string option"
  resp_code :: "string option"
  resp_rooms :: "WaitingRoom list option"

datatype EnvidoType = EnvidoCall | RealEnvido | FaltaEnvido

fun envido_name :: "EnvidoType \<Rightarrow> string" where
  "envido_name EnvidoCall = ''envido''"
| "envido_name RealEnvido = ''real_envido''"
| "envido_name FaltaEnvido = ''falta_envido''"

datatype Request =
    PlayerJoin string string
  | RoomCreate string GameConfig
  | RoomJoinCode string string
  | GameStart string
  | PlayCard string string
  | CallTrucoReq string
  | CallEnvidoReq string EnvidoType
  | CallFlorReq string
  | CallResponse string bool
  | PlayerLeave string
  | RoomsList
  | MatchQuick GameConfig
  | PhaseSkip string

datatype Variant = Default | Destructive

record Toast =
  title :: string
  description :: string
  variant :: Variant

text \<open>
  What a handler does to the world outside the component state: a request sent on the
  socket, a toast shown to the user, a timer armed (its delay in milliseconds; the only
  timer of the game screen runs the reconnect callback), a line on the developer console,
  a call of the \<^verbatim>\<open>onJoinRoom\<close> property.
\<close>

datatype Effect =
    Emit Request
  | ShowToast Toast
  | SetTimeout nat
  | ConsoleError string "string option"
  | OnJoinRoom "string option"

text \<open>JavaScript's \<^verbatim>\<open>a || b\<close> on a possibly absent string: absent and empty are falsy.\<close>

definition or_else :: "string option \<Rightarrow> string \<Rightarrow> string" where
  "or_else a b = (case a of None \<Rightarrow> b | Some s \<Rightarrow> if s = [] then b else s)"

text \<open>Truthiness of a \<^verbatim>\<open>string | null\<close> value.\<close>

definition truthy :: "string option \<Rightarrow> bool" where
  "truthy a = (case a of None \<Rightarrow> False | Some s \<Rightarrow> s \<noteq> [])"

text \<open>The letters outside ASCII in the notices of the source, in UTF-8.\<close>

definition o_acute :: string where
  "o_acute = [CHR 0xC3, CHR 0xB3]"

definition a_acute :: string where
  "a_acute = [CHR 0xC3, CHR 0xA1]"

definition inverted_exclamation :: string where
  "inverted_exclamation = [CHR 0xC2, CHR 0xA1]"

text \<open>
  A number inside a template literal is printed by the language. The numbers here have
  integer values; the language holds each as the nearest double (\<open>to_double\<close>, ties to the
  even mantissa) and prints the shortest decimal that reads back as that double
  (\<open>shortest\<close>; of two equally short ones the nearer, then the even one): all its
  digits up to 21 digits, in exponent form beyond, \<^verbatim>\<open>Infinity\<close> from \<open>2 ^ 1024\<close> on.
  Below \<open>2 ^ 53\<close> that is the plain decimal numeral.
\<close>

definition digit :: "int \<Rightarrow> char" where
  "digit d = ''0123456789'' ! nat d"

function show_digits :: "int \<Rightarrow> string" where
  "show_digits n =
     (if n < 10 then [digit n] else show_digits (n div 10) @ [digit (n mod 10)])"
  by pat_completeness auto
termination
  by (relation "measure nat") auto

function bit_length :: "int \<Rightarrow> nat" where
  "bit_length n = (if n \<le> 0 then 0 else Suc (bit_length (n div 2)))"
  by pat_completeness auto
termination
  by (relation "measure nat") auto

definition to_double :: "int \<Rightarrow> int" where
  "to_double n =
     (if n < 9007199254740992 then n
      else
        (let e = bit_length n - 53; q = n div 2 ^ e; r = n mod 2 ^ e; h = 2 ^ (e - 1)
         in if h < r \<or> (r = h \<and> odd q) then (q + 1) * 2 ^ e else q * 2 ^ e))"

text \<open>
  \<open>reads_as x v\<close>: the decimal \<open>v\<close> lies in the rounding interval of the double \<open>x\<close>
  (at least \<open>2 ^ 53\<close>), whose ends belong to it when the mantissa is even. The interval is
  narrower below a power of two. Everything is scaled by four to stay in the integers.
\<close>

definition reads_as :: "int \<Rightarrow> int \<Rightarrow> bool" where
  "reads_as x v =
     (let e = bit_length x - 53; q = x div 2 ^ e;
          below = (if q = 4503599627370496 then 2 ^ e else 2 * 2 ^ e);
          above = 2 * 2 ^ e
      in if even q then 4 * x \<le> 4 * v + below \<and> 4 * v \<le> 4 * x + above
         else 4 * x < 4 * v + below \<and> 4 * v < 4 * x + above)"

text \<open>The decimal with \<open>k\<close> significant digits that reads back as \<open>x\<close>, if there is one.\<close>

definition candidate :: "int \<Rightarrow> nat \<Rightarrow> int option" where
  "candidate x k =
     (let p = 10 ^ (length (show_digits x) - k); lo = (x div p) * p; hi = lo + p
      in if reads_as x lo \<and> reads_as x hi then
           (if x - lo < hi - x then Some lo
            else if hi - x < x - lo then Some hi
            else if even (lo div p) then Some lo else Some hi)
         else if reads_as x lo then Some lo
         else if reads_as x hi then Some hi
         else None)"

definition shortest :: "int \<Rightarrow> int" where
  "shortest x =
     (case List.map_filter (candidate x) [1 ..< Suc (length (show_digits x))] of
        v # _ \<Rightarrow> v
      | [] \<Rightarrow> x)"

definition number_string :: "int \<Rightarrow> string" where
  "number_string n =
     (let x = to_double n in
      if x < 9007199254740992 then show_digits x
      else if 2 ^ 1024 \<le> x then ''Infinity''
      else
        (let ds = show_digits (shortest x); n = length ds;
             s = rev (dropWhile (\<lambda>c. c = CHR ''0'') (rev ds))
         in if n \<le> 21 then ds
            else if length s = 1 then s @ ''e+'' @ show_digits (int n - 1)
            else hd s # ''.'' @ tl s @ ''e+'' @ show_digits (int n - 1)))"

definition show_int :: "int \<Rightarrow> string" where
  "show_int i = (if i < 0 then CHR ''-'' # number_string (- i) else number_string i)"

definition show_score :: "int option \<Rightarrow> string" where
  "show_score v = (case v of None \<Rightarrow> ''undefined'' | Some i \<Rightarrow> show_int i)"

section \<open>The game screen (components/truco/game-screen.tsx)\<close>

text \<open>
  The component state: the two properties the handlers read, the \<^verbatim>\<open>useState\<close> cells, the
  \<^verbatim>\<open>useRef\<close> counter and the process-wide connection manager. A state setter writes its
  cell; a functional update (\<^verbatim>\<open>setX(prev => ...)\<close>) reads the cell. A closure, though,
  holds the values of the render that built it: the fields \<open>seen_...\<close> are the values of the
  last render of the cells that closures read, and only a render brings them up to date.
  The ref is read and written in place.

  The effect that registers the socket handlers depends on \<^verbatim>\<open>room?.players\<close>, compared by
  identity. Every room object that arrives is a new object, so \<open>players_ref\<close> numbers the
  arrays (\<open>None\<close> when the room is absent) and \<open>effect_players_ref\<close> is the one the effect
  last ran with. A handler returns the new state and its effects in order.
\<close>

record GameScreen =
  manager :: SocketManager
  roomId :: string
  playerName :: string
  room :: "Room option"
  gameState :: jsobject
  playerHand :: "Card list"
  messages :: "GameMessage list"
  connected :: bool
  currentPlayerId :: string
  reconnecting :: bool
  actionInProgress :: "string option"
  reconnectAttempts :: nat
  seen_room :: "Room option"
  seen_gameState :: jsobject
  seen_currentPlayerId :: string
  seen_actionInProgress :: "string option"
  players_ref :: "nat option"
  effect_players_ref :: "nat option"
  next_ref :: nat

definition GameScreen_initial :: "SocketManager \<Rightarrow> string \<Rightarrow> string \<Rightarrow> GameScreen" where
  "GameScreen_initial m name rid =
     \<lparr>manager = m, roomId = rid, playerName = name, room = None, gameState = Map.empty,
      playerHand = [], messages = [], connected = False, currentPlayerId = [],
      reconnecting = False, actionInProgress = None, reconnectAttempts = 0,
      seen_room = None, seen_gameState = Map.empty, seen_currentPlayerId = [],
      seen_actionInProgress = None, players_ref = None, effect_players_ref = None,
      next_ref = 0\<rparr>"

definition setRoom :: "Room option \<Rightarrow> GameScreen \<Rightarrow> GameScreen" where
  "setRoom r st =
     (case r of
        None \<Rightarrow> st\<lparr>room := None, players_ref := None\<rparr>
      | Some x \<Rightarrow>
          st\<lparr>room := Some x, players_ref := Some (next_ref st), next_ref := Suc (next_ref st)\<rparr>)"

text \<open>
  The body of the effect, up to the registration of the handlers; \<open>sid\<close> is
  \<^verbatim>\<open>socket.id\<close> at that moment.
\<close>

definition effect :: "string option \<Rightarrow> GameScreen \<Rightarrow> GameScreen" where
  "effect sid st =
     (case connect (manager st) of (h, m') \<Rightarrow>
        st\<lparr>manager := m', currentPlayerId := or_else sid [],
           effect_players_ref := players_ref st\<rparr>)"

definition snapshot :: "GameScreen \<Rightarrow> GameScreen" where
  "snapshot st =
     st\<lparr>seen_room := room st, seen_gameState := gameState st,
        seen_currentPlayerId := currentPlayerId st,
        seen_actionInProgress := actionInProgress st\<rparr>"

text \<open>
  The first render runs the effect; a later render runs it again when \<^verbatim>\<open>room?.players\<close>
  is not the array it last ran with.
\<close>

definition mount :: "string option \<Rightarrow> GameScreen \<Rightarrow> GameScreen" where
  "mount sid st = effect sid (snapshot st)"

definition render :: "string option \<Rightarrow> GameScreen \<Rightarrow> GameScreen" where
  "render sid st =
     (if players_ref st \<noteq> effect_players_ref st then effect sid (snapshot st)
      else snapshot st)"

definition maxReconnectAttempts :: nat where
  "maxReconnectAttempts = 5"

definition reconnect_failed_toast :: Toast where
  "reconnect_failed_toast =
     \<lparr>title = ''Error de conexi'' @ o_acute @ ''n'',
      description = ''No se pudo reconectar al servidor. Intenta recargar la p''
        @ a_acute @ ''gina.'',
      variant = Destructive\<rparr>"

definition reconnected_toast :: Toast where
  "reconnected_toast =
     \<lparr>title = ''Reconectado'',
      description = ''Te has reconectado exitosamente al juego.'',
      variant = Default\<rparr>"

definition error_toast :: "string \<Rightarrow> Toast" where
  "error_toast d = \<lparr>title = ''Error'', description = d, variant = Destructive\<rparr>"

definition attemptReconnect :: "GameScreen \<Rightarrow> GameScreen \<times> Effect list" where
  "attemptReconnect st =
     (if reconnectAttempts st \<ge> maxReconnectAttempts then
        (st, [ShowToast reconnect_failed_toast])
      else
        (let st' = st\<lparr>reconnecting := True, reconnectAttempts := reconnectAttempts st + 1\<rparr>;
             delay = min (1000 * 2 ^ reconnectAttempts st') 10000
         in (st', [SetTimeout delay])))"

text \<open>The callback of the timer armed by \<open>attemptReconnect\<close>, and the callback of its request.\<close>

definition reconnect_timeout :: "GameScreen \<Rightarrow> GameScreen \<times> Effect list" where
  "reconnect_timeout st =
     (case connect (manager st) of (h, m') \<Rightarrow>
        (st\<lparr>manager := m'\<rparr>, [Emit (PlayerJoin (roomId st) (playerName st))]))"

definition reconnect_ack :: "Response \<Rightarrow> GameScreen \<Rightarrow> GameScreen \<times> Effect list" where
  "reconnect_ack response st =
     (if success response then
        ((setRoom (resp_room response) st)\<lparr>reconnecting := False, reconnectAttempts := 0\<rparr>,
         [ShowToast reconnected_toast])
      else (st, []))"

definition on_connect :: "GameScreen \<Rightarrow> GameScreen \<times> Effect list" where
  "on_connect st =
     (st\<lparr>connected := True, reconnecting := False, reconnectAttempts := 0\<rparr>,
      [Emit (PlayerJoin (roomId st) (playerName st))])"

definition join_ack :: "Response \<Rightarrow> GameScreen \<Rightarrow> GameScreen \<times> Effect list" where
  "join_ack response st =
     (if success response then
        ((setRoom (resp_room response) st)
           \<lparr>gameState := (case resp_gameState response of Some g \<Rightarrow> g | None \<Rightarrow> gameState st),
            playerHand := (case resp_hand response of Some h \<Rightarrow> h | None \<Rightarrow> playerHand st)\<rparr>,
         [])
      else
        (st, [ShowToast (error_toast (or_else (error response) ''No se pudo unir a la sala''))]))"

definition on_disconnect :: "string \<Rightarrow> GameScreen \<Rightarrow> GameScreen \<times> Effect list" where
  "on_disconnect reason st =
     (let st' = st\<lparr>connected := False\<rparr>
      in if reason = ''io server disconnect'' then attemptReconnect st' else (st', []))"

definition on_room_update :: "Room \<Rightarrow> nat \<Rightarrow> GameScreen \<Rightarrow> GameScreen \<times> Effect list" where
  "on_room_update updatedRoom now st =
     (let st' = setRoom (Some updatedRoom) st
      in case find (\<lambda>p. \<not> player_connected p) (players updatedRoom) of
           Some disconnectedPlayer \<Rightarrow>
             (st'\<lparr>messages := messages st' @
                [\<lparr>msg_type = Info,
                  msg_text = player_name disconnectedPlayer @ '' se desconect'' @ o_acute,
                  timestamp = now\<rparr>]\<rparr>, [])
         | None \<Rightarrow> (st', []))"

definition on_game_update :: "jsobject \<Rightarrow> GameScreen \<Rightarrow> GameScreen \<times> Effect list" where
  "on_game_update updatedGameState st =
     (st\<lparr>gameState := gameState st ++ updatedGameState, actionInProgress := None\<rparr>, [])"

definition on_game_hand :: "Card list \<Rightarrow> GameScreen \<Rightarrow> GameScreen \<times> Effect list" where
  "on_game_hand hand st = (st\<lparr>playerHand := hand\<rparr>, [])"

definition on_game_message :: "GameMessage \<Rightarrow> GameScreen \<Rightarrow> GameScreen \<times> Effect list" where
  "on_game_message message st = (st\<lparr>messages := messages st @ [message]\<rparr>, [])"

text \<open>The handler of \<^verbatim>\<open>game:ended\<close> looks the winner up in the room its closure holds.\<close>

definition on_game_ended ::
  "string \<Rightarrow> (string \<rightharpoonup> int) \<Rightarrow> nat \<Rightarrow> GameScreen \<Rightarrow> GameScreen \<times> Effect list" where
  "on_game_ended winnerId scores now st =
     (case (case seen_room st of None \<Rightarrow> None
            | Some r \<Rightarrow> find (\<lambda>p. player_id p = winnerId) (players r)) of
        Some winner \<Rightarrow>
          (st\<lparr>messages := messages st @
              [\<lparr>msg_type = Winner,
                msg_text = inverted_exclamation @ ''Partida terminada! '' @ player_name winner
                  @ '' gan'' @ o_acute @ '' con '' @ show_score (scores winnerId) @ '' puntos'',
                timestamp = now\<rparr>],
              actionInProgress := None\<rparr>,
           [ShowToast \<lparr>title = ''Partida terminada'',
                       description = player_name winner @ '' gan'' @ o_acute @ '' la partida'',
                       variant = Default\<rparr>])
      | None \<Rightarrow> (st\<lparr>actionInProgress := None\<rparr>, []))"

definition on_error :: "string \<Rightarrow> nat \<Rightarrow> GameScreen \<Rightarrow> GameScreen \<times> Effect list" where
  "on_error message now st =
     (st\<lparr>messages := messages st @
         [\<lparr>msg_type = Info, msg_text = ''Error: '' @ message, timestamp = now\<rparr>],
         actionInProgress := None\<rparr>,
      [ConsoleError ''Socket error:'' (Some message), ShowToast (error_toast message)])"

subsection \<open>User actions\<close>

text \<open>
  The action handlers are \<^verbatim>\<open>useCallback\<close> closures: the flag, the turn owner and the local
  player's id they test are the values of the render they were built in. The eight handlers
  share the shape of their acknowledgement callback: a toast when \<^verbatim>\<open>response.success\<close> is
  falsy, then the flag reset. The fallback text is the handler's own.
\<close>

definition action_ack :: "string \<Rightarrow> Response \<Rightarrow> GameScreen \<Rightarrow> GameScreen \<times> Effect list" where
  "action_ack fallback response st =
     (st\<lparr>actionInProgress := None\<rparr>,
      if \<not> success response
      then [ShowToast (error_toast (or_else (error response) fallback))]
      else [])"

definition handleStartGame :: "GameScreen \<Rightarrow> GameScreen \<times> Effect list" where
  "handleStartGame st =
     (if getSocket (manager st) \<noteq> None \<and> \<not> truthy (seen_actionInProgress st) then
        (st\<lparr>actionInProgress := Some ''starting''\<rparr>, [Emit (GameStart (roomId st))])
      else (st, []))"

definition handleStartGame_ack :: "Response \<Rightarrow> GameScreen \<Rightarrow> GameScreen \<times> Effect list" where
  "handleStartGame_ack = action_ack ''No se pudo iniciar la partida''"

definition handlePlayCard :: "string \<Rightarrow> GameScreen \<Rightarrow> GameScreen \<times> Effect list" where
  "handlePlayCard cardId st =
     (if getSocket (manager st) \<noteq> None \<and> \<not> truthy (seen_actionInProgress st)
         \<and> seen_gameState st ''turnPlayerId'' = Some (JStr (seen_currentPlayerId st)) then
        (st\<lparr>actionInProgress := Some ''playing-card''\<rparr>, [Emit (PlayCard (roomId st) cardId)])
      else (st, []))"

definition handlePlayCard_ack :: "Response \<Rightarrow> GameScreen \<Rightarrow> GameScreen \<times> Effect list" where
  "handlePlayCard_ack = action_ack ''No se pudo jugar la carta''"

definition handleCallTruco :: "GameScreen \<Rightarrow> GameScreen \<times> Effect list" where
  "handleCallTruco st =
     (if getSocket (manager st) \<noteq> None \<and> \<not> truthy (seen_actionInProgress st) then
        (st\<lparr>actionInProgress := Some ''calling-truco''\<rparr>, [Emit (CallTrucoReq (roomId st))])
      else (st, []))"

definition handleCallTruco_ack :: "Response \<Rightarrow> GameScreen \<Rightarrow> GameScreen \<times> Effect list" where
  "handleCallTruco_ack = action_ack ''No se pudo cantar truco''"

definition handleCallEnvido :: "EnvidoType \<Rightarrow> GameScreen \<Rightarrow> GameScreen \<times> Effect list" where
  "handleCallEnvido type st =
     (if getSocket (manager st) \<noteq> None \<and> \<not> truthy (seen_actionInProgress st) then
        (st\<lparr>actionInProgress := Some (''calling-'' @ envido_name type)\<rparr>,
         [Emit (CallEnvidoReq (roomId st) type)])
      else (st, []))"

definition handleCallEnvido_ack :: "Response \<Rightarrow> GameScreen \<Rightarrow> GameScreen \<times> Effect list" where
  "handleCallEnvido_ack = action_ack ''No se pudo cantar envido''"

definition handleCallFlor :: "GameScreen \<Rightarrow> GameScreen \<times> Effect list" where
  "handleCallFlor st =
     (if getSocket (manager st) \<noteq> None \<and> \<not> truthy (seen_actionInProgress st) then
        (st\<lparr>actionInProgress := Some ''calling-flor''\<rparr>, [Emit (CallFlorReq (roomId st))])
      else (st, []))"

definition handleCallFlor_ack :: "Response \<Rightarrow> GameScreen \<Rightarrow> GameScreen \<times> Effect list" where
  "handleCallFlor_ack = action_ack ''No se pudo cantar flor''"

definition handleSkipPhase :: "GameScreen \<Rightarrow> GameScreen \<times> Effect list" where
  "handleSkipPhase st =
     (if getSocket (manager st) \<noteq> None \<and> \<not> truthy (seen_actionInProgress st) then
        (st\<lparr>actionInProgress := Some ''skipping-phase''\<rparr>, [Emit (PhaseSkip (roomId st))])
      else (st, []))"

definition handleSkipPhase_ack :: "Response \<Rightarrow> GameScreen \<Rightarrow> GameScreen \<times> Effect list" where
  "handleSkipPhase_ack = action_ack ''No se pudo pasar la fase''"

definition handleAcceptCall :: "GameScreen \<Rightarrow> GameScreen \<times> Effect list" where
  "handleAcceptCall st =
     (if getSocket (manager st) \<noteq> None \<and> \<not> truthy (seen_actionInProgress st) then
        (st\<lparr>actionInProgress := Some ''accepting-call''\<rparr>,
         [Emit (CallResponse (roomId st) True)])
      else (st, []))"

definition handleAcceptCall_ack :: "Response \<Rightarrow> GameScreen \<Rightarrow> GameScreen \<times> Effect list" where
  "handleAcceptCall_ack = action_ack ''No se pudo aceptar la jugada''"

definition handleRejectCall :: "GameScreen \<Rightarrow> GameScreen \<times> Effect list" where
  "handleRejectCall st =
     (if getSocket (manager st) \<noteq> None \<and> \<not> truthy (seen_actionInProgress st) then
        (st\<lparr>actionInProgress := Some ''rejecting-call''\<rparr>,
         [Emit (CallResponse (roomId st) False)])
      else (st, []))"

definition handleRejectCall_ack :: "Response \<Rightarrow> GameScreen \<Rightarrow> GameScreen \<times> Effect list" where
  "handleRejectCall_ack = action_ack ''No se pudo rechazar la jugada''"

text \<open>The user's actions on the game screen, each with its handler, callback and fallback.\<close>

datatype UserAction =
    StartGame
  | PlayCardAction string
  | CallTruco
  | CallEnvido EnvidoType
  | CallFlor
  | SkipPhase
  | AcceptCall
  | RejectCall

fun invoke :: "UserAction \<Rightarrow> GameScreen \<Rightarrow> GameScreen \<times> Effect list" where
  "invoke StartGame = handleStartGame"
| "invoke (PlayCardAction cardId) = handlePlayCard cardId"
| "invoke CallTruco = handleCallTruco"
| "invoke (CallEnvido type) = handleCallEnvido type"
| "invoke CallFlor = handleCallFlor"
| "invoke SkipPhase = handleSkipPhase"
| "invoke AcceptCall = handleAcceptCall"
| "invoke RejectCall = handleRejectCall"

fun acknowledge :: "UserAction \<Rightarrow> Response \<Rightarrow> GameScreen \<Rightarrow> GameScreen \<times> Effect list" where
  "acknowledge StartGame = handleStartGame_ack"
| "acknowledge (PlayCardAction cardId) = handlePlayCard_ack"
| "acknowledge CallTruco = handleCallTruco_ack"
| "acknowledge (CallEnvido type) = handleCallEnvido_ack"
| "acknowledge CallFlor = handleCallFlor_ack"
| "acknowledge SkipPhase = handleSkipPhase_ack"
| "acknowledge AcceptCall = handleAcceptCall_ack"
| "acknowledge RejectCall = handleRejectCall_ack"

fun fallback_message :: "UserAction \<Rightarrow> string" where
  "fallback_message StartGame = ''No se pudo iniciar la partida''"
| "fallback_message (PlayCardAction cardId) = ''No se pudo jugar la carta''"
| "fallback_message CallTruco = ''No se pudo cantar truco''"
| "fallback_message (CallEnvido type) = ''No se pudo cantar envido''"
| "fallback_message CallFlor = ''No se pudo cantar flor''"
| "fallback_message SkipPhase = ''No se pudo pasar la fase''"
| "fallback_message AcceptCall = ''No se pudo aceptar la jugada''"
| "fallback_message RejectCall = ''No se pudo rechazar la jugada''"

subsection \<open>The screen as an event system\<close>

text \<open>
  Everything that can happen to a mounted game screen: a render, a socket event, the
  reconnect timer, an acknowledgement reaching its callback, a user action. Events that read
  the clock carry the time; a render carries \<^verbatim>\<open>socket.id\<close> for the effect it may run.
\<close>

datatype GameEvent =
    Render "string option"
  | SocketConnect
  | SocketDisconnect string
  | ReconnectTimeout
  | ReconnectAck Response
  | JoinAck Response
  | RoomUpdate Room nat
  | GameUpdate jsobject
  | GameHand "Card list"
  | GameMessagePush GameMessage
  | GameEnded string "string \<rightharpoonup> int" nat
  | ErrorPush string nat
  | Invoke UserAction
  | Ack UserAction Response

fun handle_event :: "GameEvent \<Rightarrow> GameScreen \<Rightarrow> GameScreen \<times> Effect list" where
  "handle_event (Render sid) = (\<lambda>st. (render sid st, []))"
| "handle_event SocketConnect = on_connect"
| "handle_event (SocketDisconnect reason) = on_disconnect reason"
| "handle_event ReconnectTimeout = reconnect_timeout"
| "handle_event (ReconnectAck response) = reconnect_ack response"
| "handle_event (JoinAck response) = join_ack response"
| "handle_event (RoomUpdate updatedRoom now) = on_room_update updatedRoom now"
| "handle_event (GameUpdate updatedGameState) = on_game_update updatedGameState"
| "handle_event (GameHand hand) = on_game_hand hand"
| "handle_event (GameMessagePush message) = on_game_message message"
| "handle_event (GameEnded winnerId scores now) = on_game_ended winnerId scores now"
| "handle_event (ErrorPush message now) = on_error message now"
| "handle_event (Invoke a) = invoke a"
| "handle_event (Ack a response) = acknowledge a response"

fun run :: "GameEvent list \<Rightarrow> GameScreen \<Rightarrow> GameScreen \<times> Effect list" where
  "run [] st = (st, [])"
| "run (e # es) st =
     (case handle_event e st of (st', out) \<Rightarrow>
        (case run es st' of (st'', out') \<Rightarrow> (st'', out @ out')))"

text \<open>Observations on the effects of a run.\<close>

fun timeouts :: "Effect list \<Rightarrow> nat list" where
  "timeouts [] = []"
| "timeouts (SetTimeout d # es) = d # timeouts es"
| "timeouts (e # es) = timeouts es"

fun toasts :: "Effect list \<Rightarrow> Toast list" where
  "toasts [] = []"
| "toasts (ShowToast t # es) = t # toasts es"
| "toasts (e # es) = toasts es"


definition forced :: GameEvent where
  "forced = SocketDisconnect ''io server disconnect''"

fun forced_disconnects :: "GameEvent list \<Rightarrow> nat" where
  "forced_disconnects [] = 0"
| "forced_disconnects (SocketDisconnect reason # es) =
     (if reason = ''io server disconnect'' then Suc (forced_disconnects es)
      else forced_disconnects es)"
| "forced_disconnects (e # es) = forced_disconnects es"

text \<open>
  The order in which a socket reports its connection: \<^verbatim>\<open>disconnect\<close> only while it is
  connected, \<^verbatim>\<open>connect\<close> only while it is not. \<open>up\<close> says whether the socket is connected
  at the start.
\<close>

fun socket_order :: "bool \<Rightarrow> GameEvent list \<Rightarrow> bool" where
  "socket_order up [] = True"
| "socket_order up (SocketConnect # es) = (\<not> up \<and> socket_order True es)"
| "socket_order up (SocketDisconnect reason # es) = (up \<and> socket_order False es)"
| "socket_order up (e # es) = socket_order up es"

text \<open>Between a connect and the next one the counter of attempts is at most one.\<close>

definition counter_ok :: "bool \<Rightarrow> GameScreen \<Rightarrow> bool" where
  "counter_ok up st = (if up then reconnectAttempts st = 0 else reconnectAttempts st \<le> 1)"

text \<open>Acknowledgements with no payload: a refusal with the server's message, if any.\<close>

definition refusal :: "string option \<Rightarrow> Response" where
  "refusal e =
     \<lparr>success = False, error = e, resp_room = None, resp_gameState = None, resp_hand = None,
      resp_roomId = None, resp_code = None, resp_rooms = None\<rparr>"

section \<open>The lobby screen (components/truco/lobby-screen.tsx)\<close>

text \<open>
  The lobby's state: its properties, its \<^verbatim>\<open>useState\<close> cells and the connection manager.
  \<open>createdRoomId\<close> is set from \<^verbatim>\<open>response.roomId\<close>, which may be absent (\<open>None\<close>).
  The component imports no toast hook: its only outlet besides the socket and
  \<^verbatim>\<open>onJoinRoom\<close> is the console.
\<close>

record LobbyScreen =
  lobby_manager :: SocketManager
  lobby_playerName :: string
  gameConfig :: GameConfig
  joinRoomId :: string
  createdRoomId :: "string option"
  createdRoomCode :: string
  waitingRooms :: "WaitingRoom list"
  lobby_connected :: bool
  loading :: bool
  quickMatchLoading :: bool

definition LobbyScreen_initial :: "SocketManager \<Rightarrow> string \<Rightarrow> GameConfig \<Rightarrow> LobbyScreen" where
  "LobbyScreen_initial m name config =
     \<lparr>lobby_manager = m, lobby_playerName = name, gameConfig = config, joinRoomId = [],
      createdRoomId = Some [], createdRoomCode = [], waitingRooms = [],
      lobby_connected = False, loading = False, quickMatchLoading = False\<rparr>"

text \<open>
  \<^verbatim>\<open>fetchWaitingRooms\<close> reads \<^verbatim>\<open>connected\<close> from the render that built it; the caller
  passes the value its closure holds.
\<close>

definition fetchWaitingRooms :: "bool \<Rightarrow> LobbyScreen \<Rightarrow> Effect list" where
  "fetchWaitingRooms seen_connected st =
     (if getSocket (lobby_manager st) \<noteq> None \<and> seen_connected then [Emit RoomsList] else [])"

definition fetchWaitingRooms_ack :: "Response \<Rightarrow> LobbyScreen \<Rightarrow> LobbyScreen" where
  "fetchWaitingRooms_ack response st =
     (if success response
      then st\<lparr>waitingRooms := (case resp_rooms response of Some rs \<Rightarrow> rs | None \<Rightarrow> [])\<rparr>
      else st)"

definition on_rooms_list :: "WaitingRoom list option \<Rightarrow> LobbyScreen \<Rightarrow> LobbyScreen" where
  "on_rooms_list rooms st =
     st\<lparr>waitingRooms := (case rooms of Some rs \<Rightarrow> rs | None \<Rightarrow> [])\<rparr>"

definition on_match_found :: "string option \<Rightarrow> LobbyScreen \<Rightarrow> LobbyScreen \<times> Effect list" where
  "on_match_found rid st = (st\<lparr>quickMatchLoading := False\<rparr>, [OnJoinRoom rid])"

definition handleCreateRoom :: "LobbyScreen \<Rightarrow> LobbyScreen \<times> Effect list" where
  "handleCreateRoom st =
     (if getSocket (lobby_manager st) = None then (st, [])
      else (st\<lparr>loading := True\<rparr>,
            [Emit (RoomCreate (lobby_playerName st) (gameConfig st))]))"

definition handleCreateRoom_ack ::
  "bool \<Rightarrow> Response \<Rightarrow> LobbyScreen \<Rightarrow> LobbyScreen \<times> Effect list" where
  "handleCreateRoom_ack seen_connected response st =
     (let st' = st\<lparr>loading := False\<rparr>
      in if success response then
           (let st'' = st'\<lparr>createdRoomId := resp_roomId response,
                             createdRoomCode := or_else (resp_code response) []\<rparr>
            in (st'', fetchWaitingRooms seen_connected st''))
         else (st', [ConsoleError ''Failed to create room:'' (error response)]))"

definition handleQuickMatch :: "LobbyScreen \<Rightarrow> LobbyScreen \<times> Effect list" where
  "handleQuickMatch st =
     (if getSocket (lobby_manager st) = None then (st, [])
      else (st\<lparr>quickMatchLoading := True\<rparr>, [Emit (MatchQuick (gameConfig st))]))"

definition handleQuickMatch_ack :: "Response \<Rightarrow> LobbyScreen \<Rightarrow> LobbyScreen \<times> Effect list" where
  "handleQuickMatch_ack response st =
     (if success response then
        (if truthy (resp_roomId response)
         then (st\<lparr>quickMatchLoading := False\<rparr>, [OnJoinRoom (resp_roomId response)])
         else (st, []))
      else (st\<lparr>quickMatchLoading := False\<rparr>,
            [ConsoleError ''Failed to find quick match:'' (error response)]))"

text \<open>
  Strings are UTF-8 text. \<^verbatim>\<open>trim\<close> removes from both ends the white space and line
  terminators of the language: tab, line feed, vertical tab, form feed, carriage return,
  space, U+00A0, U+1680, U+2000 to U+200A, U+2028, U+2029, U+202F, U+205F, U+3000 and U+FEFF,
  here in their encodings.
\<close>

definition white_space :: "string list" where
  "white_space =
     [[CHR 0x09], [CHR 0x0A], [CHR 0x0B], [CHR 0x0C], [CHR 0x0D], [CHR 0x20],
      [CHR 0xC2, CHR 0xA0], [CHR 0xE1, CHR 0x9A, CHR 0x80],
      [CHR 0xE2, CHR 0x80, CHR 0x80], [CHR 0xE2, CHR 0x80, CHR 0x81],
      [CHR 0xE2, CHR 0x80, CHR 0x82], [CHR 0xE2, CHR 0x80, CHR 0x83],
      [CHR 0xE2, CHR 0x80, CHR 0x84], [CHR 0xE2, CHR 0x80, CHR 0x85],
      [CHR 0xE2, CHR 0x80, CHR 0x86], [CHR 0xE2, CHR 0x80, CHR 0x87],
      [CHR 0xE2, CHR 0x80, CHR 0x88], [CHR 0xE2, CHR 0x80, CHR 0x89],
      [CHR 0xE2, CHR 0x80, CHR 0x8A], [CHR 0xE2, CHR 0x80, CHR 0xA8],
      [CHR 0xE2, CHR 0x80, CHR 0xA9], [CHR 0xE2, CHR 0x80, CHR 0xAF],
      [CHR 0xE2, CHR 0x81, CHR 0x9F], [CHR 0xE3, CHR 0x80, CHR 0x80],
      [CHR 0xEF, CHR 0xBB, CHR 0xBF]]"

function strip :: "string list \<Rightarrow> string \<Rightarrow> string" where
  "strip ws s =
     (case find (\<lambda>w. w \<noteq> [] \<and> take (length w) s = w) ws of
        Some w \<Rightarrow> strip ws (drop (length w) s)
      | None \<Rightarrow> s)"
  by pat_completeness auto
termination
proof (relation "measure (\<lambda>(ws, s). length s)")
  show "wf (measure (\<lambda>(ws, s). length s))" by simp
next
  fix ws :: "string list" and s w :: string
  assume "find (\<lambda>w. w \<noteq> [] \<and> take (length w) s = w) ws = Some w"
  then have w: "w \<noteq> []" and t: "take (length w) s = w"
    by (auto simp: find_Some_iff)
  from t have "length (take (length w) s) = length w"
    by simp
  then have "length w \<le> length s"
    by simp
  with w show "((ws, drop (length w) s), (ws, s)) \<in> measure (\<lambda>(ws, s). length s)"
    by (cases w) auto
qed

definition trim :: "string \<Rightarrow> string" where
  "trim s = rev (strip (map rev white_space) (rev (strip white_space s)))"

definition handleJoinRoom :: "string option \<Rightarrow> LobbyScreen \<Rightarrow> Effect list" where
  "handleJoinRoom rid st =
     (let targetRoomId = or_else rid (trim (joinRoomId st))
      in if targetRoomId \<noteq> [] then [OnJoinRoom (Some targetRoomId)] else [])"

text \<open>The callback of the join-by-code request.\<close>

definition handleJoinByCode_ack :: "Response \<Rightarrow> LobbyScreen \<Rightarrow> LobbyScreen \<times> Effect list" where
  "handleJoinByCode_ack response st =
     (if success response then (st, [OnJoinRoom (resp_roomId response)])
      else (st, [ConsoleError ''Failed to join room by code:'' (error response)]))"

definition handleJoinCreatedRoom :: "LobbyScreen \<Rightarrow> Effect list" where
  "handleJoinCreatedRoom st =
     (if truthy (createdRoomId st) then [OnJoinRoom (createdRoomId st)] else [])"

definition getConfigBadge :: "GameConfig \<Rightarrow> string" where
  "getConfigBadge config =
     show_int (maxPoints config) @ ''pts'' @ (if withFlor config then '' +Flor'' else [])"

definition compatibleRooms :: "LobbyScreen \<Rightarrow> WaitingRoom list" where
  "compatibleRooms st =
     filter (\<lambda>room. maxPoints (wr_config room) = maxPoints (gameConfig st)
                    \<and> withFlor (wr_config room) = withFlor (gameConfig st))
       (waitingRooms st)"

subsection \<open>What the lobby renders\<close>

text \<open>
  The card "Crear Sala" shows either the create button (its \<^verbatim>\<open>disabled\<close> flag and label) or,
  once \<open>createdRoomId\<close> is truthy, the access code, the configuration badge and the button
  "Entrar a la Sala", which has no \<^verbatim>\<open>disabled\<close> property and runs
  \<open>handleJoinCreatedRoom\<close>.
\<close>

datatype CreateCard =
    CreateButton bool string
  | CreatedPanel string string

definition create_card :: "LobbyScreen \<Rightarrow> CreateCard" where
  "create_card st =
     (if \<not> truthy (createdRoomId st) then
        CreateButton (\<not> lobby_connected st \<or> loading st)
          (if loading st then ''Creando...'' else ''Crear Nueva Sala'')
      else
        CreatedPanel
          (if createdRoomCode st \<noteq> [] then createdRoomCode st else or_else (createdRoomId st) [])
          (getConfigBadge (gameConfig st)))"

text \<open>One row of the list "Salas Compatibles": the join button of a room.\<close>

definition join_disabled :: "LobbyScreen \<Rightarrow> WaitingRoom \<Rightarrow> bool" where
  "join_disabled st w = (\<not> lobby_connected st \<or> wr_playerCount w \<ge> 2)"

definition join_label :: "WaitingRoom \<Rightarrow> string" where
  "join_label w = (if wr_playerCount w \<ge> 2 then ''Llena'' else ''Unirse'')"

definition join_click :: "LobbyScreen \<Rightarrow> WaitingRoom \<Rightarrow> Effect list" where
  "join_click st w =
     (if join_disabled st w then [] else handleJoinRoom (Some (wr_id w)) st)"

text \<open>The acknowledgement of a created room: its id and its access code.\<close>

definition room_created :: "string \<Rightarrow> string \<Rightarrow> Response" where
  "room_created rid code =
     \<lparr>success = True, error = None, resp_room = None, resp_gameState = None, resp_hand = None,
      resp_roomId = Some rid, resp_code = Some code, resp_rooms = None\<rparr>"

section \<open>Theorems\<close>

subsection \<open>The connection manager\<close>

lemma connect_cached: "socket m = Some h \<Longrightarrow> connect m = (h, m)"
  by (simp add: connect_def)

lemma connect_caches: "socket (snd (connect m)) = Some (fst (connect m))"
  by (simp add: connect_def io_def split: option.splits)

lemma connect_times_cached:
  "socket m = Some h \<Longrightarrow> connect_times n m = (replicate n h, m)"
  by (induction n) (simp_all add: connect_cached)

lemma calls_cached:
  "Disconnect \<notin> set cs \<Longrightarrow> socket m = Some h \<Longrightarrow> calls cs m = m"
proof (induction cs)
  case Nil
  then show ?case by simp
next
  case (Cons c cs)
  then have "call c m = m"
    by (cases c) (simp_all add: connect_cached)
  with Cons show ?case by simp
qed

text \<open>
  C3. \<open>connect\<close> returns the handle it leaves in the cache. When a handle is cached,
  \<open>connect\<close> returns that very handle and changes nothing; only when none is cached does it
  make one, a new one, and cache it. So once \<open>connect\<close> has returned, a second call, any
  number \<open>n\<close> of further calls, and any sequence of calls of the manager without a
  \<open>disconnect\<close> return the same cached handle, leave the manager as it is and make no new
  connection (the count of created handles stays).
\<close>

theorem connect_idempotent:
  "getSocket (snd (connect m)) = Some (fst (connect m))
   \<and> (\<forall>h. getSocket m = Some h \<longrightarrow> connect m = (h, m))
   \<and> (getSocket m = None \<longrightarrow>
        fst (connect m) = created m \<and> created (snd (connect m)) = Suc (created m)
        \<and> torn_down (snd (connect m)) = torn_down m)
   \<and> connect (snd (connect m)) = (fst (connect m), snd (connect m))
   \<and> connect_times n (snd (connect m)) = (replicate n (fst (connect m)), snd (connect m))
   \<and> getSocket (snd (connect_times n (snd (connect m)))) = Some (fst (connect m))
   \<and> created (snd (connect_times n (snd (connect m)))) = created (snd (connect m))
   \<and> (Disconnect \<notin> set cs \<longrightarrow>
        calls cs (snd (connect m)) = snd (connect m)
        \<and> connect (calls cs (snd (connect m))) = (fst (connect m), snd (connect m)))"
proof -
  have c: "socket (snd (connect m)) = Some (fst (connect m))"
    by (rule connect_caches)
  have again: "connect (snd (connect m)) = (fst (connect m), snd (connect m))"
    using c by (rule connect_cached)
  have times:
    "connect_times n (snd (connect m)) = (replicate n (fst (connect m)), snd (connect m))"
    using c by (rule connect_times_cached)
  have cached: "\<forall>h. getSocket m = Some h \<longrightarrow> connect m = (h, m)"
    by (simp add: getSocket_def connect_cached)
  have fresh: "getSocket m = None \<longrightarrow>
        fst (connect m) = created m \<and> created (snd (connect m)) = Suc (created m)
        \<and> torn_down (snd (connect m)) = torn_down m"
    by (simp add: getSocket_def connect_def io_def)
  have seq: "Disconnect \<notin> set cs \<longrightarrow>
        calls cs (snd (connect m)) = snd (connect m)
        \<and> connect (calls cs (snd (connect m))) = (fst (connect m), snd (connect m))"
    using calls_cached [OF _ c] again by simp
  from c again times cached fresh seq show ?thesis
    by (simp add: getSocket_def)
qed

theorem connect_idempotent_witness:
  "connect socketManager = (0, \<lparr>socket = Some 0, created = 1, torn_down = []\<rparr>)
   \<and> connect (snd (connect socketManager))
       = (0, \<lparr>socket = Some 0, created = 1, torn_down = []\<rparr>)
   \<and> connect_times 3 (snd (connect socketManager))
       = ([0, 0, 0], \<lparr>socket = Some 0, created = 1, torn_down = []\<rparr>)
   \<and> connect (calls [GetSocket, Connect, GetSocket] (snd (connect socketManager)))
       = (0, \<lparr>socket = Some 0, created = 1, torn_down = []\<rparr>)
   \<and> connect \<lparr>socket = Some 5, created = 7, torn_down = [2]\<rparr>
       = (5, \<lparr>socket = Some 5, created = 7, torn_down = [2]\<rparr>)"
  using connect_idempotent [of socketManager 3 "[GetSocket, Connect, GetSocket]"]
    connect_idempotent [of "\<lparr>socket = Some 5, created = 7, torn_down = [2]\<rparr>" 0 "[]"]
  by (simp add: getSocket_def connect_def io_def socketManager_def eval_nat_numeral)

lemma manager_ok_initial: "manager_ok socketManager"
  by (simp add: manager_ok_def socketManager_def)

lemma manager_ok_connect: "manager_ok m \<Longrightarrow> manager_ok (snd (connect m))"
  by (auto simp: manager_ok_def connect_def io_def list_all_iff split: option.splits)

lemma manager_ok_disconnect: "manager_ok m \<Longrightarrow> manager_ok (disconnect m)"
  by (auto simp: manager_ok_def disconnect_def list_all_iff split: option.splits)

lemma manager_ok_call: "manager_ok m \<Longrightarrow> manager_ok (call c m)"
  by (cases c) (simp_all add: manager_ok_connect manager_ok_disconnect)

lemma manager_ok_calls: "manager_ok m \<Longrightarrow> manager_ok (calls cs m)"
  by (induction cs arbitrary: m) (simp_all add: manager_ok_call)

lemma never_connected:
  "Connect \<notin> set cs \<Longrightarrow> socket m = None \<Longrightarrow> socket (calls cs m) = None"
proof (induction cs arbitrary: m)
  case Nil
  then show ?case by simp
next
  case (Cons c cs)
  then have "socket (call c m) = None"
    by (cases c) (simp_all add: disconnect_def)
  with Cons show ?case by simp
qed

lemma disconnect_fresh:
  assumes "manager_ok m"
  shows "getSocket (disconnect m) = None"
    and "getSocket m = Some h \<Longrightarrow> h \<in> set (torn_down (disconnect m))"
    and "fst (connect (disconnect m)) \<notin> set (torn_down (disconnect m))"
    and "getSocket m = Some h \<Longrightarrow> fst (connect (disconnect m)) \<noteq> h"
    and "getSocket (snd (connect (disconnect m))) = Some (fst (connect (disconnect m)))"
    and "created (snd (connect (disconnect m))) = Suc (created m)"
  using assms
  by (auto simp: manager_ok_def getSocket_def disconnect_def connect_def io_def list_all_iff
      split: option.splits)

text \<open>
  C4. In any state \<open>m\<close> the manager reaches from its initial state by calls of its methods:
  after \<open>disconnect\<close>, \<open>getSocket\<close> returns the absent value and the handle that was cached
  has been torn down; the next \<open>connect\<close> makes one new handle, caches it, and that handle is
  none of the handles torn down so far, in particular not the one just cleared. As long as
  \<open>connect\<close> was never called, \<open>getSocket\<close> returns the absent value.
\<close>

theorem disconnect_clears_handle:
  assumes "m = calls cs socketManager"
  shows "getSocket (disconnect m) = None
    \<and> (\<forall>h. getSocket m = Some h \<longrightarrow>
          h \<in> set (torn_down (disconnect m)) \<and> fst (connect (disconnect m)) \<noteq> h)
    \<and> fst (connect (disconnect m)) \<notin> set (torn_down (disconnect m))
    \<and> getSocket (snd (connect (disconnect m))) = Some (fst (connect (disconnect m)))
    \<and> created (snd (connect (disconnect m))) = Suc (created m)
    \<and> (Connect \<notin> set cs \<longrightarrow> getSocket m = None)"
proof -
  have ok: "manager_ok m"
    using assms by (simp add: manager_ok_calls manager_ok_initial)
  have "Connect \<notin> set cs \<longrightarrow> getSocket m = None"
    using assms by (simp add: getSocket_def never_connected socketManager_def)
  with disconnect_fresh [OF ok] show ?thesis by blast
qed

theorem disconnect_clears_handle_witness:
  "getSocket (calls [Connect] socketManager) = Some 0
   \<and> getSocket (disconnect (calls [Connect] socketManager)) = None
   \<and> torn_down (disconnect (calls [Connect] socketManager)) = [0]
   \<and> fst (connect (disconnect (calls [Connect] socketManager))) = 1
   \<and> getSocket (snd (connect (disconnect (calls [Connect] socketManager)))) = Some 1
   \<and> getSocket (calls [GetSocket, Disconnect] socketManager) = None"
  using disconnect_clears_handle [of "calls [Connect] socketManager" "[Connect]"]
    disconnect_clears_handle [of "calls [GetSocket, Disconnect] socketManager"
      "[GetSocket, Disconnect]"]
  by (simp add: getSocket_def connect_def disconnect_def io_def socketManager_def)

subsection \<open>Runs of the game screen\<close>

lemma fst_run_Cons: "fst (run (e # es) st) = fst (run es (fst (handle_event e st)))"
  by (simp split: prod.splits)

lemma snd_run_Cons:
  "snd (run (e # es) st) = snd (handle_event e st) @ snd (run es (fst (handle_event e st)))"
  by (simp split: prod.splits)

subsection \<open>Pushes of game state and hand\<close>

text \<open>
  C5. When a game-state push arrives, every property of the held game state that the pushed
  object does not contain keeps its value, every property it contains takes the pushed
  value, and of the rest of the component state only the action flag changes (it is reset).
\<close>

theorem game_update_merges:
  "(k \<notin> dom updatedGameState \<longrightarrow>
      gameState (fst (handle_event (GameUpdate updatedGameState) st)) k = gameState st k)
   \<and> (k \<in> dom updatedGameState \<longrightarrow>
      gameState (fst (handle_event (GameUpdate updatedGameState) st)) k = updatedGameState k)
   \<and> fst (handle_event (GameUpdate updatedGameState) st)
       = st\<lparr>gameState := gameState (fst (handle_event (GameUpdate updatedGameState) st)),
             actionInProgress := None\<rparr>"
  by (auto simp: on_game_update_def map_add_def split: option.splits)

theorem game_update_merges_witness:
  "''phase'' \<notin> dom [''turnPlayerId'' \<mapsto> JStr ''p2'']
   \<and> ''turnPlayerId'' \<in> dom [''turnPlayerId'' \<mapsto> JStr ''p2'']
   \<and> gameState (fst (handle_event (GameUpdate [''turnPlayerId'' \<mapsto> JStr ''p2''])
        ((GameScreen_initial socketManager ''Ana'' ''R1'')
           \<lparr>gameState := [''turnPlayerId'' \<mapsto> JStr ''p1'', ''phase'' \<mapsto> JStr ''playing'']\<rparr>)))
        ''phase'' = Some (JStr ''playing'')
   \<and> gameState (fst (handle_event (GameUpdate [''turnPlayerId'' \<mapsto> JStr ''p2''])
        ((GameScreen_initial socketManager ''Ana'' ''R1'')
           \<lparr>gameState := [''turnPlayerId'' \<mapsto> JStr ''p1'', ''phase'' \<mapsto> JStr ''playing'']\<rparr>)))
        ''turnPlayerId'' = Some (JStr ''p2'')"
  using game_update_merges [of "''phase''" "[''turnPlayerId'' \<mapsto> JStr ''p2'']"
      "(GameScreen_initial socketManager ''Ana'' ''R1'')
           \<lparr>gameState := [''turnPlayerId'' \<mapsto> JStr ''p1'', ''phase'' \<mapsto> JStr ''playing'']\<rparr>"]
    game_update_merges [of "''turnPlayerId''" "[''turnPlayerId'' \<mapsto> JStr ''p2'']"
      "(GameScreen_initial socketManager ''Ana'' ''R1'')
           \<lparr>gameState := [''turnPlayerId'' \<mapsto> JStr ''p1'', ''phase'' \<mapsto> JStr ''playing'']\<rparr>"]
  by (simp add: GameScreen_initial_def)

text \<open>
  C6. When a hand push arrives, the held hand is the pushed list of cards, whatever the hand
  was before; nothing else of the state changes and nothing is emitted.
\<close>

theorem hand_push_replaces:
  "handle_event (GameHand hand) st = (st\<lparr>playerHand := hand\<rparr>, [])
   \<and> playerHand (fst (handle_event (GameHand hand) st)) = hand"
  by (simp add: on_game_hand_def)

subsection \<open>The action flag\<close>

lemma acknowledge_eq: "acknowledge a response st = action_ack (fallback_message a) response st"
  by (cases a)
    (simp_all add: handleStartGame_ack_def handlePlayCard_ack_def handleCallTruco_ack_def
      handleCallEnvido_ack_def handleCallFlor_ack_def handleSkipPhase_ack_def
      handleAcceptCall_ack_def handleRejectCall_ack_def)








subsection \<open>Playing a card\<close>






subsection \<open>Reconnecting\<close>

lemma timeouts_append: "timeouts (xs @ ys) = timeouts xs @ timeouts ys"
  by (induction xs rule: timeouts.induct) simp_all

lemma toasts_append: "toasts (xs @ ys) = toasts xs @ toasts ys"
  by (induction xs rule: toasts.induct) simp_all

lemma forced_disconnects_Cons:
  "forced_disconnects (e # es) = forced_disconnects [e] + forced_disconnects es"
  by (cases e) simp_all

lemma first_attempt:
  "reconnectAttempts st = 0 \<Longrightarrow>
   attemptReconnect st =
     (st\<lparr>reconnecting := True, reconnectAttempts := 1\<rparr>, [SetTimeout 2000])"
  by (simp add: attemptReconnect_def maxReconnectAttempts_def Let_def)

lemma not_the_terminal_notice:
  "reconnect_failed_toast \<noteq> error_toast d"
  "reconnect_failed_toast \<noteq> reconnected_toast"
  "reconnect_failed_toast \<noteq> \<lparr>title = ''Partida terminada'', description = x, variant = v\<rparr>"
  by (simp_all add: reconnect_failed_toast_def error_toast_def reconnected_toast_def
      o_acute_def)

lemma invoke_quiet:
  "timeouts (snd (invoke a st)) = []"
  "toasts (snd (invoke a st)) = []"
  "reconnectAttempts (fst (invoke a st)) = reconnectAttempts st"
  by (cases a;
      simp add: handleStartGame_def handlePlayCard_def handleCallTruco_def
        handleCallEnvido_def handleCallFlor_def handleSkipPhase_def handleAcceptCall_def
        handleRejectCall_def)+

lemma acknowledge_quiet:
  "timeouts (snd (acknowledge a response st)) = []"
  "reconnect_failed_toast \<notin> set (toasts (snd (acknowledge a response st)))"
  "reconnectAttempts (fst (acknowledge a response st)) = reconnectAttempts st"
  by (simp_all add: acknowledge_eq action_ack_def not_the_terminal_notice)

lemma counter_kept:
  assumes "e \<noteq> SocketConnect" and "\<forall>r. e \<noteq> SocketDisconnect r" and "\<forall>r. e \<noteq> ReconnectAck r"
  shows "reconnectAttempts (fst (handle_event e st)) = reconnectAttempts st"
    and "socket_order up (e # es) = socket_order up es"
  using assms
  by (cases e;
      simp add: render_def snapshot_def effect_def reconnect_timeout_def
        join_ack_def setRoom_def on_room_update_def on_game_update_def on_game_hand_def
        on_game_message_def on_game_ended_def on_error_def invoke_quiet acknowledge_quiet
        Let_def split: prod.splits option.splits)+

lemma socket_step:
  assumes "socket_order up (e # es)" and "counter_ok up st"
  shows "timeouts (snd (handle_event e st)) = replicate (forced_disconnects [e]) 2000"
    and "reconnect_failed_toast \<notin> set (toasts (snd (handle_event e st)))"
    and "\<exists>up'. socket_order up' es \<and> counter_ok up' (fst (handle_event e st))"
proof -
  show "timeouts (snd (handle_event e st)) = replicate (forced_disconnects [e]) 2000"
    using assms
    by (cases e)
      (simp_all add: counter_ok_def on_connect_def on_disconnect_def first_attempt Let_def
        reconnect_timeout_def reconnect_ack_def join_ack_def on_room_update_def
        on_game_update_def on_game_hand_def on_game_message_def on_game_ended_def on_error_def
        invoke_quiet acknowledge_quiet
        split: prod.splits option.splits)
  show "reconnect_failed_toast \<notin> set (toasts (snd (handle_event e st)))"
    using assms
    by (cases e)
      (simp_all add: counter_ok_def on_connect_def on_disconnect_def first_attempt Let_def
        reconnect_timeout_def reconnect_ack_def join_ack_def on_room_update_def
        on_game_update_def on_game_hand_def on_game_message_def on_game_ended_def on_error_def
        invoke_quiet acknowledge_quiet not_the_terminal_notice
        split: prod.splits option.splits)
  show "\<exists>up'. socket_order up' es \<and> counter_ok up' (fst (handle_event e st))"
  proof (cases "e = SocketConnect \<or> (\<exists>r. e = SocketDisconnect r) \<or> (\<exists>r. e = ReconnectAck r)")
    case False
    then have "reconnectAttempts (fst (handle_event e st)) = reconnectAttempts st"
      and "socket_order up (e # es) = socket_order up es"
      by (simp_all add: counter_kept)
    with assms have "socket_order up es \<and> counter_ok up (fst (handle_event e st))"
      by (auto simp: counter_ok_def split: if_splits)
    then show ?thesis by blast
  next
    case True
    then consider "e = SocketConnect" | r where "e = SocketDisconnect r"
      | r where "e = ReconnectAck r" by blast
    then show ?thesis
    proof cases
      case 1
      with assms have "socket_order True es \<and> counter_ok True (fst (handle_event e st))"
        by (auto simp: counter_ok_def on_connect_def split: if_splits)
      then show ?thesis by blast
    next
      case 2
      with assms have "socket_order False es \<and> counter_ok False (fst (handle_event e st))"
        by (auto simp: counter_ok_def on_disconnect_def first_attempt Let_def
            split: if_splits)
      then show ?thesis by blast
    next
      case 3
      with assms have "socket_order up es \<and> counter_ok up (fst (handle_event e st))"
        by (auto simp: counter_ok_def reconnect_ack_def setRoom_def
            split: option.splits if_splits)
      then show ?thesis by blast
    qed
  qed
qed

lemma socket_run:
  assumes "socket_order up es" and "counter_ok up st"
  shows "timeouts (snd (run es st)) = replicate (forced_disconnects es) 2000
    \<and> reconnect_failed_toast \<notin> set (toasts (snd (run es st)))"
  using assms
proof (induction es arbitrary: up st)
  case Nil
  then show ?case by simp
next
  case (Cons e es)
  from socket_step(3) [OF Cons.prems] obtain up' where
    o: "socket_order up' es" and c: "counter_ok up' (fst (handle_event e st))"
    by blast
  have k: "forced_disconnects (e # es) = forced_disconnects [e] + forced_disconnects es"
    by (rule forced_disconnects_Cons)
  from Cons.IH [OF o c] socket_step(1,2) [OF Cons.prems] show ?case
    by (simp only: snd_run_Cons timeouts_append toasts_append k replicate_add set_append)
      simp
qed

text \<open>
  C1. What the reconnect code does where a backoff of 1, 2, 4, 8, 10 seconds over five
  attempts and a terminal notice are expected. A socket reports a disconnect only while it
  is connected and a connect only while it is not, and the connect handler resets the
  counter of attempts. Hence in every run in that order that starts with the counter at
  zero, each forced server disconnect arms exactly one timer, the delay of every timer is
  2000 milliseconds, and the terminal notice is never shown. A refused reconnect request
  changes nothing and arms no timer: there is no second attempt.
\<close>

theorem reconnect_one_attempt:
  assumes "socket_order up es" and "reconnectAttempts st = 0"
  shows "timeouts (snd (run es st)) = replicate (forced_disconnects es) 2000
    \<and> reconnect_failed_toast \<notin> set (toasts (snd (run es st)))
    \<and> handle_event (ReconnectAck (response\<lparr>success := False\<rparr>)) st' = (st', [])"
proof -
  have "counter_ok up st"
    using assms(2) by (simp add: counter_ok_def)
  from socket_run [OF assms(1) this] show ?thesis
    by (simp add: reconnect_ack_def)
qed

theorem reconnect_one_attempt_witness:
  "run [SocketConnect, forced, ReconnectTimeout, ReconnectAck (refusal None)]
      (mount None (GameScreen_initial (snd (connect socketManager)) ''Ana'' ''R1''))
   = ((mount None (GameScreen_initial (snd (connect socketManager)) ''Ana'' ''R1''))
        \<lparr>reconnecting := True, reconnectAttempts := 1\<rparr>,
      [Emit (PlayerJoin ''R1'' ''Ana''), SetTimeout 2000, Emit (PlayerJoin ''R1'' ''Ana'')])
   \<and> timeouts (snd (run [SocketConnect, forced, ReconnectTimeout, ReconnectAck (refusal None),
                          SocketConnect, forced, ReconnectTimeout, ReconnectAck (refusal None)]
      (mount None (GameScreen_initial (snd (connect socketManager)) ''Ana'' ''R1''))))
     = [2000, 2000]
   \<and> toasts (snd (run [SocketConnect, forced, ReconnectTimeout, ReconnectAck (refusal None),
                          SocketConnect, forced, ReconnectTimeout, ReconnectAck (refusal None)]
      (mount None (GameScreen_initial (snd (connect socketManager)) ''Ana'' ''R1''))))
     = []"
  using reconnect_one_attempt
    [where up = False
       and es = "[SocketConnect, forced, ReconnectTimeout, ReconnectAck (refusal None),
                  SocketConnect, forced, ReconnectTimeout, ReconnectAck (refusal None)]"
       and st = "mount None (GameScreen_initial (snd (connect socketManager)) ''Ana'' ''R1'')"]
  by (simp add: GameScreen_initial_def mount_def effect_def snapshot_def forced_def refusal_def
      on_connect_def on_disconnect_def attemptReconnect_def maxReconnectAttempts_def
      reconnect_timeout_def reconnect_ack_def connect_def io_def socketManager_def Let_def
      or_else_def)

subsection \<open>Refused actions\<close>

text \<open>
  C2 (as amended). On the game screen, the acknowledgement of any of the eight user actions
  with \<open>success = false\<close> resets the action flag and shows one error notice whose text is
  the server's message, or the handler's fallback text when the server sends none or an
  empty one. On the lobby screen a refused create-room or quick-match resets that action's
  loading flag, a refused join-by-code changes nothing, and each writes the error to the
  console only: the lobby shows no notice.
\<close>

theorem failed_ack_notice:
  assumes "\<not> success response"
  shows "handle_event (Ack a response) st =
      (st\<lparr>actionInProgress := None\<rparr>,
       [ShowToast \<lparr>title = ''Error'',
          description = (case error response of
                           None \<Rightarrow> fallback_message a
                         | Some e \<Rightarrow> if e = [] then fallback_message a else e),
          variant = Destructive\<rparr>])
    \<and> handleCreateRoom_ack seen response l =
      (l\<lparr>loading := False\<rparr>, [ConsoleError ''Failed to create room:'' (error response)])
    \<and> handleQuickMatch_ack response l =
      (l\<lparr>quickMatchLoading := False\<rparr>,
       [ConsoleError ''Failed to find quick match:'' (error response)])
    \<and> handleJoinByCode_ack response l =
      (l, [ConsoleError ''Failed to join room by code:'' (error response)])"
  using assms
  by (simp add: acknowledge_eq action_ack_def error_toast_def or_else_def
      handleCreateRoom_ack_def handleQuickMatch_ack_def handleJoinByCode_ack_def Let_def)

theorem failed_ack_notice_witness:
  "snd (handle_event (Ack StartGame (refusal (Some ''Faltan jugadores'')))
      (GameScreen_initial socketManager ''Ana'' ''R1''))
     = [ShowToast \<lparr>title = ''Error'', description = ''Faltan jugadores'',
                   variant = Destructive\<rparr>]
   \<and> snd (handle_event (Ack StartGame (refusal None))
      (GameScreen_initial socketManager ''Ana'' ''R1''))
     = [ShowToast \<lparr>title = ''Error'', description = ''No se pudo iniciar la partida'',
                   variant = Destructive\<rparr>]
   \<and> actionInProgress (fst (handle_event (Ack StartGame (refusal None))
      ((GameScreen_initial socketManager ''Ana'' ''R1'')
         \<lparr>actionInProgress := Some ''starting''\<rparr>))) = None"
  using failed_ack_notice
      [where response = "refusal (Some ''Faltan jugadores'')" and a = StartGame
         and st = "GameScreen_initial socketManager ''Ana'' ''R1''"]
    failed_ack_notice
      [where response = "refusal None" and a = StartGame
         and st = "GameScreen_initial socketManager ''Ana'' ''R1''"]
    failed_ack_notice
      [where response = "refusal None" and a = StartGame
         and st = "(GameScreen_initial socketManager ''Ana'' ''R1'')
           \<lparr>actionInProgress := Some ''starting''\<rparr>"]
  by (simp add: refusal_def)

text \<open>
  The claim fails on the lobby screen: a refused create-room with the server's message
  shows no notice; the message goes to the console.
\<close>

theorem failed_ack_notice_counterexample:
  "\<not> success (refusal (Some ''Sala llena''))
   \<and> toasts (snd (handleCreateRoom_ack True (refusal (Some ''Sala llena''))
        (fst (handleCreateRoom
          (LobbyScreen_initial (snd (connect socketManager)) ''Ana''
            \<lparr>maxPoints = 15, withFlor = True\<rparr>))))) = []
   \<and> snd (handleCreateRoom_ack True (refusal (Some ''Sala llena''))
        (fst (handleCreateRoom
          (LobbyScreen_initial (snd (connect socketManager)) ''Ana''
            \<lparr>maxPoints = 15, withFlor = True\<rparr>))))
     = [ConsoleError ''Failed to create room:'' (Some ''Sala llena'')]"
  by (simp add: refusal_def handleCreateRoom_ack_def)

subsection \<open>The lobby\<close>

lemma badge_number: "show_int 15 = ''15''"
  by (simp add: show_int_def number_string_def to_double_def digit_def)

text \<open>
  C8. With a socket at hand and the configuration \<open>{maxPoints: 15, withFlor: true}\<close>,
  creating a room emits \<open>room:create\<close> with that configuration; once the server
  acknowledges with success, room id \<open>R1\<close> and code \<open>ABC123\<close>, the lobby renders the
  panel with the code \<open>ABC123\<close> and its enter-room button calls \<open>onJoinRoom\<close> with
  \<open>R1\<close>.
\<close>

theorem create_room_scenario:
  assumes "getSocket (lobby_manager st) \<noteq> None"
    and "gameConfig st = \<lparr>maxPoints = 15, withFlor = True\<rparr>"
    and "success response"
    and "resp_roomId response = Some ''R1''"
    and "resp_code response = Some ''ABC123''"
  shows "snd (handleCreateRoom st) =
           [Emit (RoomCreate (lobby_playerName st) \<lparr>maxPoints = 15, withFlor = True\<rparr>)]
    \<and> create_card (fst (handleCreateRoom_ack seen response (fst (handleCreateRoom st))))
        = CreatedPanel ''ABC123'' ''15pts +Flor''
    \<and> handleJoinCreatedRoom
          (fst (handleCreateRoom_ack seen response (fst (handleCreateRoom st))))
        = [OnJoinRoom (Some ''R1'')]"
  using assms
  by (simp add: handleCreateRoom_def handleCreateRoom_ack_def create_card_def
      handleJoinCreatedRoom_def truthy_def or_else_def getConfigBadge_def badge_number Let_def)

theorem create_room_scenario_witness:
  "snd (handleCreateRoom
      (LobbyScreen_initial (snd (connect socketManager)) ''Ana''
        \<lparr>maxPoints = 15, withFlor = True\<rparr>))
     = [Emit (RoomCreate ''Ana'' \<lparr>maxPoints = 15, withFlor = True\<rparr>)]
   \<and> create_card (fst (handleCreateRoom_ack False (room_created ''R1'' ''ABC123'')
        (fst (handleCreateRoom
          (LobbyScreen_initial (snd (connect socketManager)) ''Ana''
            \<lparr>maxPoints = 15, withFlor = True\<rparr>)))))
     = CreatedPanel ''ABC123'' ''15pts +Flor''
   \<and> handleJoinCreatedRoom (fst (handleCreateRoom_ack False (room_created ''R1'' ''ABC123'')
        (fst (handleCreateRoom
          (LobbyScreen_initial (snd (connect socketManager)) ''Ana''
            \<lparr>maxPoints = 15, withFlor = True\<rparr>)))))
     = [OnJoinRoom (Some ''R1'')]"
  using create_room_scenario
    [where st = "LobbyScreen_initial (snd (connect socketManager)) ''Ana''
        \<lparr>maxPoints = 15, withFlor = True\<rparr>"
       and response = "room_created ''R1'' ''ABC123''" and seen = False]
  by (simp add: LobbyScreen_initial_def room_created_def getSocket_def connect_def io_def
      socketManager_def)

text \<open>
  C10. A room is in the list of compatible rooms exactly when it is in the fetched list of
  waiting rooms and its configuration has the local player's max points and flor flag; the
  join button of a room with two or more players is disabled, and clicking it does nothing.
\<close>

theorem compatible_rooms_exact:
  "(w \<in> set (compatibleRooms st) \<longleftrightarrow>
      w \<in> set (waitingRooms st)
      \<and> maxPoints (wr_config w) = maxPoints (gameConfig st)
      \<and> withFlor (wr_config w) = withFlor (gameConfig st))
   \<and> (2 \<le> wr_playerCount w \<longrightarrow> join_disabled st w \<and> join_click st w = [])"
  by (simp add: compatibleRooms_def join_disabled_def join_click_def)


theorem compatible_rooms_exact_witness:
  "compatibleRooms
     ((LobbyScreen_initial socketManager ''Ana'' \<lparr>maxPoints = 15, withFlor = True\<rparr>)
        \<lparr>waitingRooms :=
           [\<lparr>wr_id = ''A'', wr_code = None, wr_playerCount = 1, wr_createdAt = 0,
             wr_config = \<lparr>maxPoints = 15, withFlor = True\<rparr>\<rparr>,
            \<lparr>wr_id = ''B'', wr_code = None, wr_playerCount = 1, wr_createdAt = 0,
             wr_config = \<lparr>maxPoints = 30, withFlor = True\<rparr>\<rparr>,
            \<lparr>wr_id = ''C'', wr_code = None, wr_playerCount = 2, wr_createdAt = 0,
             wr_config = \<lparr>maxPoints = 15, withFlor = True\<rparr>\<rparr>],
          lobby_connected := True\<rparr>)
   = [\<lparr>wr_id = ''A'', wr_code = None, wr_playerCount = 1, wr_createdAt = 0,
       wr_config = \<lparr>maxPoints = 15, withFlor = True\<rparr>\<rparr>,
      \<lparr>wr_id = ''C'', wr_code = None, wr_playerCount = 2, wr_createdAt = 0,
       wr_config = \<lparr>maxPoints = 15, withFlor = True\<rparr>\<rparr>]
   \<and> join_disabled
     ((LobbyScreen_initial socketManager ''Ana'' \<lparr>maxPoints = 15, withFlor = True\<rparr>)
        \<lparr>waitingRooms :=
           [\<lparr>wr_id = ''A'', wr_code = None, wr_playerCount = 1, wr_createdAt = 0,
             wr_config = \<lparr>maxPoints = 15, withFlor = True\<rparr>\<rparr>,
            \<lparr>wr_id = ''B'', wr_code = None, wr_playerCount = 1, wr_createdAt = 0,
             wr_config = \<lparr>maxPoints = 30, withFlor = True\<rparr>\<rparr>,
            \<lparr>wr_id = ''C'', wr_code = None, wr_playerCount = 2, wr_createdAt = 0,
             wr_config = \<lparr>maxPoints = 15, withFlor = True\<rparr>\<rparr>],
          lobby_connected := True\<rparr>)
     \<lparr>wr_id = ''C'', wr_code = None, wr_playerCount = 2, wr_createdAt = 0,
       wr_config = \<lparr>maxPoints = 15, withFlor = True\<rparr>\<rparr>"
  using compatible_rooms_exact
    [where st = "(LobbyScreen_initial socketManager ''Ana'' \<lparr>maxPoints = 15, withFlor = True\<rparr>)
        \<lparr>waitingRooms :=
           [\<lparr>wr_id = ''A'', wr_code = None, wr_playerCount = 1, wr_createdAt = 0,
             wr_config = \<lparr>maxPoints = 15, withFlor = True\<rparr>\<rparr>,
            \<lparr>wr_id = ''B'', wr_code = None, wr_playerCount = 1, wr_createdAt = 0,
             wr_config = \<lparr>maxPoints = 30, withFlor = True\<rparr>\<rparr>,
            \<lparr>wr_id = ''C'', wr_code = None, wr_playerCount = 2, wr_createdAt = 0,
             wr_config = \<lparr>maxPoints = 15, withFlor = True\<rparr>\<rparr>],
          lobby_connected := True\<rparr>"
       and w = "\<lparr>wr_id = ''C'', wr_code = None, wr_playerCount = 2, wr_createdAt = 0,
       wr_config = \<lparr>maxPoints = 15, withFlor = True\<rparr>\<rparr>"]
  by (simp add: LobbyScreen_initial_def compatibleRooms_def)

end
